theory Spec2Isabelle
  imports Complex_Main "HOL-Library.AList" "HOL-Library.Sublist"
begin

section \<open>Python values\<close>

text \<open>
  The values that travel through the adapter are JSON-shaped Python objects: \<open>None\<close>,
  booleans, integers, floats, strings, lists and dictionaries with string keys. A
  dictionary is an association list in insertion order; \<open>d[k] = v\<close> is
  \<open>AList.update k v d\<close> (an existing key keeps its position, a new key is appended) and
  \<open>d.get(k)\<close> is \<open>map_of d k\<close>. A float is carried as the real number it denotes: the
  adapter never computes with one, it only stores, tests and forwards it (infinities and
  NaN are outside the model).
\<close>

datatype pyval =
    PNone
  | PBool bool
  | PInt int
  | PFloat real
  | PStr string
  | PList "pyval list"
  | PDict "(string \<times> pyval) list"

type_synonym pydict = "(string \<times> pyval) list"

text \<open>Truthiness, as \<open>bool(v)\<close>, \<open>if v\<close>, \<open>not v\<close> and \<open>x or y\<close> use it.\<close>

fun truthy :: "pyval \<Rightarrow> bool" where
  "truthy PNone = False"
| "truthy (PBool b) = b"
| "truthy (PInt i) = (i \<noteq> 0)"
| "truthy (PFloat x) = (x \<noteq> 0)"
| "truthy (PStr s) = (s \<noteq> [])"
| "truthy (PList xs) = (xs \<noteq> [])"
| "truthy (PDict d) = (d \<noteq> [])"

text \<open>\<open>d.get(k)\<close> with the default \<open>None\<close>, and \<open>d.get(k, default)\<close>.\<close>

definition dict_get :: "pydict \<Rightarrow> string \<Rightarrow> pyval" where
  "dict_get d k = (case map_of d k of None \<Rightarrow> PNone | Some v \<Rightarrow> v)"

definition dict_get_default :: "pydict \<Rightarrow> string \<Rightarrow> pyval \<Rightarrow> pyval" where
  "dict_get_default d k dflt = (case map_of d k of None \<Rightarrow> dflt | Some v \<Rightarrow> v)"

text \<open>\<open>x or y\<close>: the first operand when it is truthy, the second otherwise.\<close>

definition py_or :: "pyval \<Rightarrow> pyval \<Rightarrow> pyval" where
  "py_or x y = (if truthy x then x else y)"

section \<open>Filter flattening\<close>

text \<open>
  \<open>RetailCRMService._convert_filter_data_to_retail_crm_style\<close>. The two filter schemas of
  the repository are records; \<open>model_dump(exclude_none=True, by_alias=True)\<close> lists their
  fields in declaration order under their aliases and leaves out the fields that are
  \<open>None\<close>.
\<close>

record CustomerFiltersSchema =
  cf_name :: "string option"
  cf_email :: "string option"
  cf_created_at_from :: "string option"
  cf_created_at_to :: "string option"
  cf_limit :: int
  cf_page :: int

record CustomerGetOrdersSchema =
  co_customer_id :: int
  co_limit :: int
  co_page :: int

datatype filter_dto =
    FiltersModel CustomerFiltersSchema
  | OrdersModel CustomerGetOrdersSchema
  | FilterDict pydict

definition opt_field :: "string \<Rightarrow> string option \<Rightarrow> pydict" where
  "opt_field k v = (case v of None \<Rightarrow> [] | Some s \<Rightarrow> [(k, PStr s)])"

definition model_dump_filters :: "CustomerFiltersSchema \<Rightarrow> pydict" where
  "model_dump_filters f =
     opt_field ''name'' (cf_name f) @ opt_field ''email'' (cf_email f) @
     opt_field ''created_at_from'' (cf_created_at_from f) @
     opt_field ''created_at_to'' (cf_created_at_to f) @
     [(''limit'', PInt (cf_limit f)), (''page'', PInt (cf_page f))]"

definition model_dump_orders :: "CustomerGetOrdersSchema \<Rightarrow> pydict" where
  "model_dump_orders c =
     [(''customerId'', PInt (co_customer_id c)), (''limit'', PInt (co_limit c)),
      (''page'', PInt (co_page c))]"

text \<open>
  The inner function \<open>flatten(prefix, value)\<close> writes into the enclosing \<open>params\<close>
  dictionary, which is passed and returned here (its argument \<open>prefix\<close> is \<open>pfx\<close>).
  Its two \<open>for\<close> loops are the functions \<open>flatten_items\<close> (over \<open>value.items()\<close>) and
  \<open>flatten_elems\<close> (over the list).
\<close>

fun flatten :: "string \<Rightarrow> pyval \<Rightarrow> pydict \<Rightarrow> pydict"
  and flatten_items :: "string \<Rightarrow> (string \<times> pyval) list \<Rightarrow> pydict \<Rightarrow> pydict"
  and flatten_elems :: "string \<Rightarrow> pyval list \<Rightarrow> pydict \<Rightarrow> pydict"
where
  "flatten pfx (PDict d) params = flatten_items pfx d params"
| "flatten pfx (PList xs) params = flatten_elems pfx xs params"
| "flatten pfx PNone params = AList.update pfx PNone params"
| "flatten pfx (PBool b) params = AList.update pfx (PBool b) params"
| "flatten pfx (PInt i) params = AList.update pfx (PInt i) params"
| "flatten pfx (PFloat x) params = AList.update pfx (PFloat x) params"
| "flatten pfx (PStr s) params = AList.update pfx (PStr s) params"
| "flatten_items pfx [] params = params"
| "flatten_items pfx ((k, v) # rest) params =
     flatten_items pfx rest (flatten (pfx @ ''['' @ k @ '']'') v params)"
| "flatten_elems pfx [] params = params"
| "flatten_elems pfx (item # rest) params =
     flatten_elems pfx rest (flatten (pfx @ ''[]'') item params)"

text \<open>The first loop: \<open>limit\<close> and \<open>page\<close> go to \<open>params\<close>, the rest to \<open>filter_dict\<close>.\<close>

fun split_filters :: "pydict \<Rightarrow> pydict \<times> pydict \<Rightarrow> pydict \<times> pydict" where
  "split_filters [] (params, filter_dict) = (params, filter_dict)"
| "split_filters ((key, v) # rest) (params, filter_dict) =
     (if key = ''limit'' \<or> key = ''page''
      then split_filters rest (AList.update key v params, filter_dict)
      else split_filters rest (params, AList.update key v filter_dict))"

text \<open>The last loop: \<open>for k, v in filter_dict.items(): flatten(f"filter[{k}]", v)\<close>.\<close>

fun flatten_filter_dict :: "pydict \<Rightarrow> pydict \<Rightarrow> pydict" where
  "flatten_filter_dict [] params = params"
| "flatten_filter_dict ((k, v) # rest) params =
     flatten_filter_dict rest (flatten (''filter['' @ k @ '']'') v params)"

definition convert_filter_data_to_retail_crm_style :: "filter_dto \<Rightarrow> pydict" where
  "convert_filter_data_to_retail_crm_style filter_dto =
     (let filters = (case filter_dto of
                       FiltersModel m \<Rightarrow> model_dump_filters m
                     | OrdersModel m \<Rightarrow> model_dump_orders m
                     | FilterDict d \<Rightarrow> filter (\<lambda>(k, v). v \<noteq> PNone) d);
          (params, filter_dict) = split_filters filters ([], [])
      in flatten_filter_dict filter_dict params)"

subsection \<open>The flattening rules, as the specification words them\<close>

text \<open>
  \<open>pagination_key\<close> is the test \<open>key in ("limit", "page")\<close>; a scalar is a value that is
  neither a mapping nor a list nor \<open>None\<close>. \<open>spec_pairs\<close> lists, in order, the key/value
  pairs the rules of the specification give for a value under a prefix: a scalar gives
  \<open>prefix = value\<close>, a mapping recurses with \<open>prefix[subkey]\<close>, a list recurses once per
  element with \<open>prefix[]\<close>. \<open>spec_flatten\<close> is the whole output by those rules:
  \<open>limit\<close> and \<open>page\<close> at the top level, everything else under \<open>filter[...]\<close>, the
  top-level entries that are \<open>None\<close> left out.
\<close>

definition pagination_key :: "string \<Rightarrow> bool" where
  "pagination_key k = (k = ''limit'' \<or> k = ''page'')"


fun spec_pairs :: "string \<Rightarrow> pyval \<Rightarrow> (string \<times> pyval) list"
  and spec_pairs_items :: "string \<Rightarrow> (string \<times> pyval) list \<Rightarrow> (string \<times> pyval) list"
  and spec_pairs_elems :: "string \<Rightarrow> pyval list \<Rightarrow> (string \<times> pyval) list"
where
  "spec_pairs p (PDict d) = spec_pairs_items p d"
| "spec_pairs p (PList xs) = spec_pairs_elems p xs"
| "spec_pairs p PNone = [(p, PNone)]"
| "spec_pairs p (PBool b) = [(p, PBool b)]"
| "spec_pairs p (PInt i) = [(p, PInt i)]"
| "spec_pairs p (PFloat x) = [(p, PFloat x)]"
| "spec_pairs p (PStr s) = [(p, PStr s)]"
| "spec_pairs_items p [] = []"
| "spec_pairs_items p ((k, v) # rest) = spec_pairs (p @ ''['' @ k @ '']'') v @ spec_pairs_items p rest"
| "spec_pairs_elems p [] = []"
| "spec_pairs_elems p (x # rest) = spec_pairs (p @ ''[]'') x @ spec_pairs_elems p rest"

definition spec_flatten :: "pydict \<Rightarrow> (string \<times> pyval) list" where
  "spec_flatten d =
     filter (\<lambda>(k, v). pagination_key k \<and> v \<noteq> PNone) d @
     spec_pairs_items ''filter'' (filter (\<lambda>(k, v). \<not> pagination_key k \<and> v \<noteq> PNone) d)"

subsection \<open>The code performs the pairs of the rules as dictionary writes\<close>

definition writes :: "(string \<times> pyval) list \<Rightarrow> pydict \<Rightarrow> pydict" where
  "writes ws params = fold (\<lambda>(k, v). AList.update k v) ws params"

lemma writes_simps [simp]:
  "writes [] params = params"
  "writes ((k, v) # ws) params = writes ws (AList.update k v params)"
  "writes (ws @ ws') params = writes ws' (writes ws params)"
  by (simp_all add: writes_def)




















subsection \<open>Claims about the flattening\<close>




text \<open>
  Claim C3: the list-valued filter \<open>{phones: [{number: "1"}, {number: "2"}]}\<close> should give
  at least two keys prefixed \<open>filter[phones]\<close>, with the values \<open>"1"\<close> and \<open>"2"\<close> among
  them. The code recurses once per element, but both elements are written under the same
  key \<open>filter[phones][][number]\<close> of the output dictionary: the output has one pair, and
  the value \<open>"1"\<close> is lost.
\<close>

theorem convert_filter_list_overwrites:
  "convert_filter_data_to_retail_crm_style
     (FilterDict [(''phones'', PList [PDict [(''number'', PStr ''1'')],
                                      PDict [(''number'', PStr ''2'')]])])
     = [(''filter[phones][][number]'', PStr ''2'')]
   \<and> spec_flatten [(''phones'', PList [PDict [(''number'', PStr ''1'')],
                                      PDict [(''number'', PStr ''2'')]])]
     = [(''filter[phones][][number]'', PStr ''1''), (''filter[phones][][number]'', PStr ''2'')]"
  by (simp add: convert_filter_data_to_retail_crm_style_def spec_flatten_def pagination_key_def)

section \<open>Errors, text and logging\<close>

text \<open>
  The repository raises the built-in \<open>Exception\<close> with a message and nothing else; the
  other constructors are what Python and pydantic raise on the adapter's behalf:
  \<open>AttributeError\<close> for \<open>.get\<close> on a value that is not a dictionary, \<open>TypeError\<close> for \<open>**\<close>
  on a value that is not a mapping, \<open>ValidationError\<close> for a schema that rejects its input
  (the text of the last two is the library's and is not modelled).
\<close>

datatype error =
    Exception string
  | AttributeError string
  | TypeError
  | ValidationError

text \<open>The class of an exception, which is what an \<open>except\<close> clause matches on.\<close>

datatype exc_class = ExceptionClass | AttributeErrorClass | TypeErrorClass | ValidationErrorClass

fun class_of :: "error \<Rightarrow> exc_class" where
  "class_of (Exception m) = ExceptionClass"
| "class_of (AttributeError m) = AttributeErrorClass"
| "class_of TypeError = TypeErrorClass"
| "class_of ValidationError = ValidationErrorClass"

text \<open>\<open>str(e)\<close>, for the exceptions whose text the model carries.\<close>

fun error_text :: "error \<Rightarrow> string" where
  "error_text (Exception m) = m"
| "error_text (AttributeError m) = m"
| "error_text TypeError = []"
| "error_text ValidationError = []"

fun type_name :: "pyval \<Rightarrow> string" where
  "type_name PNone = ''NoneType''"
| "type_name (PBool b) = ''bool''"
| "type_name (PInt i) = ''int''"
| "type_name (PFloat x) = ''float''"
| "type_name (PStr s) = ''str''"
| "type_name (PList xs) = ''list''"
| "type_name (PDict d) = ''dict''"

text \<open>What \<open>v.get(...)\<close> raises when \<open>v\<close> is not a dictionary.\<close>

definition no_get :: "pyval \<Rightarrow> error" where
  "no_get v = AttributeError
     ([CHR 0x27] @ type_name v @ [CHR 0x27] @ '' object has no attribute '' @
      [CHR 0x27] @ ''get'' @ [CHR 0x27])"

text \<open>Decimal text of an integer, as an f-string prints it.\<close>

definition digit_char :: "nat \<Rightarrow> char" where
  "digit_char n = ''0123456789'' ! n"

function str_nat :: "nat \<Rightarrow> string" where
  "str_nat n = (if n < 10 then [digit_char n] else str_nat (n div 10) @ [digit_char (n mod 10)])"
  by pat_completeness auto
termination
  by (relation "measure id") auto

declare str_nat.simps [simp del]

definition str_int :: "int \<Rightarrow> string" where
  "str_int i = (if i < 0 then ''-'' @ str_nat (nat (- i)) else str_nat (nat i))"

text \<open>
  \<open>f"{v}"\<close> for a value \<open>v\<close>. The text of a float, a list or a dictionary is the
  interpreter's and is taken as the parameter \<open>fmt\<close>.
\<close>

fun py_str :: "(pyval \<Rightarrow> string) \<Rightarrow> pyval \<Rightarrow> string" where
  "py_str fmt (PStr s) = s"
| "py_str fmt PNone = ''None''"
| "py_str fmt (PBool b) = (if b then ''True'' else ''False'')"
| "py_str fmt (PInt i) = str_int i"
| "py_str fmt v = fmt v"

datatype level = DEBUG | INFO | WARNING | ERROR

section \<open>Phone normalization\<close>

text \<open>
  \<open>CustomerGetSchema.parse_phones\<close>. \<open>project_numbers\<close> is the list comprehension
  \<open>[item.get("number") for item in v if item.get("number")]\<close>; it raises at the first item
  that is not a dictionary.
\<close>

fun project_numbers :: "pyval list \<Rightarrow> error + pyval list" where
  "project_numbers [] = Inr []"
| "project_numbers (item # rest) =
     (case item of
        PDict d \<Rightarrow>
          (case project_numbers rest of
             Inl e \<Rightarrow> Inl e
           | Inr ys \<Rightarrow>
               if truthy (dict_get d ''number'') then Inr (dict_get d ''number'' # ys)
               else Inr ys)
      | _ \<Rightarrow> Inl (no_get item))"

fun parse_phones :: "pyval \<Rightarrow> error + pyval" where
  "parse_phones PNone = Inr PNone"
| "parse_phones (PList []) = Inr (PList [])"
| "parse_phones (PList (PDict d # rest)) =
     (case project_numbers (PDict d # rest) of Inl e \<Rightarrow> Inl e | Inr ys \<Rightarrow> Inr (PList ys))"
| "parse_phones (PList (PStr s # rest)) = Inr (PList (PStr s # rest))"
| "parse_phones v = Inr v"

lemma project_numbers_dicts:
  "project_numbers (map PDict ds) =
     Inr (map (\<lambda>d. dict_get d ''number'') (filter (\<lambda>d. truthy (dict_get d ''number'')) ds))"
  by (induction ds) simp_all

text \<open>
  Claim C7. Phone normalization maps \<open>None\<close> to \<open>None\<close>, \<open>[]\<close> to \<open>[]\<close>,
  \<open>["1", "2"]\<close> to itself and \<open>[{"number": "1"}, {"number": "2"}]\<close> to \<open>["1", "2"]\<close>;
  and a non-empty list of structured entries is projected to the \<open>number\<close> values of
  the entries that have a usable (truthy) one, the other entries being dropped.
\<close>

theorem parse_phones_spec:
  "parse_phones PNone = Inr PNone
 \<and> parse_phones (PList []) = Inr (PList [])
 \<and> parse_phones (PList [PStr ''1'', PStr ''2'']) = Inr (PList [PStr ''1'', PStr ''2''])
 \<and> parse_phones (PList [PDict [(''number'', PStr ''1'')], PDict [(''number'', PStr ''2'')]])
      = Inr (PList [PStr ''1'', PStr ''2''])
 \<and> (\<forall>ds. ds \<noteq> [] \<longrightarrow>
      parse_phones (PList (map PDict ds)) =
        Inr (PList (map (\<lambda>d. dict_get d ''number'')
                      (filter (\<lambda>d. truthy (dict_get d ''number'')) ds))))"
proof -
  have "parse_phones (PList (map PDict ds)) =
        Inr (PList (map (\<lambda>d. dict_get d ''number'')
                      (filter (\<lambda>d. truthy (dict_get d ''number'')) ds)))" if ne: "ds \<noteq> []" for ds
  proof -
    obtain d rest where ds: "ds = d # rest" using ne by (cases ds) auto
    have "parse_phones (PList (map PDict ds)) =
      (case project_numbers (map PDict ds) of Inl e \<Rightarrow> Inl e | Inr ys \<Rightarrow> Inr (PList ys))"
      unfolding ds by simp
    then show ?thesis by (simp add: project_numbers_dicts)
  qed
  then show ?thesis by (simp add: dict_get_def)
qed

theorem parse_phones_spec_witness:
  "[[(''number'', PStr ''1'')], [(''ext'', PStr ''9'')], [(''number'', PStr '''')], [(''number'', PStr ''2'')]] \<noteq> []
   \<and> parse_phones (PList [PDict [(''number'', PStr ''1'')], PDict [(''ext'', PStr ''9'')],
                          PDict [(''number'', PStr '''')], PDict [(''number'', PStr ''2'')]])
     = Inr (PList [PStr ''1'', PStr ''2''])"
proof -
  let ?ds = "[[(''number'', PStr ''1'')], [(''ext'', PStr ''9'')], [(''number'', PStr '''')], [(''number'', PStr ''2'')]]"
  have h: "?ds \<noteq> []" by simp
  from parse_phones_spec have "parse_phones (PList (map PDict ?ds)) =
        Inr (PList (map (\<lambda>d. dict_get d ''number'')
                      (filter (\<lambda>d. truthy (dict_get d ''number'')) ?ds)))"
    using h by blast
  then show ?thesis by (simp add: dict_get_def)
qed

section \<open>The request pipeline\<close>

text \<open>
  Modelled from the spec: \<open>HTTPMethod\<close> of \<open>src/services/integrations/constants_base.py\<close>,
  which is not among the sources. The adapter uses its members \<open>GET\<close> and \<open>POST\<close> (read
  operations are HTTP GET, write operations HTTP POST), whose text is the method name.
\<close>

datatype HTTPMethod = GET | POST

fun method_value :: "HTTPMethod \<Rightarrow> string" where
  "method_value GET = ''GET''"
| "method_value POST = ''POST''"

text \<open>
  What \<open>self.client.request(method, url, params, data, headers)\<close> sends, and what comes
  back: either the call raises (a timeout, a connection error; the text is \<open>str(e)\<close>), or
  it returns a response with a status code, a body text and the result of \<open>.json()\<close>
  (the decoder's error text, or the decoded value).
\<close>

record request =
  req_method :: HTTPMethod
  req_url :: string
  req_params :: pydict
  req_data :: "pydict option"
  req_headers :: pydict

record response =
  resp_status_code :: int
  resp_text :: string
  resp_json :: "string + pyval"

datatype outcome = Raises string | Responds response

text \<open>
  The world outside the adapter: the HTTP calls issued so far, in order, and the log
  records written so far (level and message; the \<open>extra\<close> fields are left out).
\<close>

record world =
  calls :: "request list"
  logs :: "(level \<times> string) list"

definition log :: "level \<Rightarrow> string \<Rightarrow> world \<Rightarrow> world" where
  "log lvl msg w = w\<lparr>logs := logs w @ [(lvl, msg)]\<rparr>"

text \<open>\<open>RetailCRMService.__init__\<close>: \<open>api_url\<close> is \<open>URL + PREFIX\<close>, \<open>api_key\<close> is \<open>API_KEY\<close>.\<close>

record service =
  api_url :: string
  api_key :: string

text \<open>\<open>RetailCRMEndpoint\<close>, and \<open>ORDER_GET.build(order_id=...)\<close>.\<close>

definition CUSTOMERS_LIST :: string where "CUSTOMERS_LIST = ''/customers''"
definition CUSTOMERS_CREATE :: string where "CUSTOMERS_CREATE = ''/customers/create''"
definition ORDERS_LIST :: string where "ORDERS_LIST = ''/orders''"
definition ORDER_CREATE :: string where "ORDER_CREATE = ''/orders/create''"
definition PAYMENTS_CREATE :: string where "PAYMENTS_CREATE = ''/orders/payments/create''"

definition ORDER_GET_build :: "int \<Rightarrow> string" where
  "ORDER_GET_build order_id = ''/orders/'' @ str_int order_id"

subsection \<open>The schemas\<close>

typedecl datetime

record CustomerAddSchema =
  ca_first_name :: string
  ca_last_name :: "string option"
  ca_email :: "string option"
  ca_phones :: "string list option"
  ca_birthday :: "datetime option"

record CustomerGetSchema = CustomerAddSchema +
  cg_id :: int

record CustomerResponseWithIdOnlySchema =
  cr_id :: int

datatype OrderTypeEnum = OrderType_main

datatype OrderMethodEnum =
    phone | shopping_cart | one_click | price_decrease_request | landing_page | offline
  | app | live_chat | terminal | missed_call | messenger

record OfferSchema =
  offer_name :: string
  offer_id :: int

record OrderItemSchema =
  oi_quantity :: real
  oi_initial_price :: real
  oi_purchase_price :: real
  oi_product_name :: string

record OrderItemGetSchema = OrderItemSchema +
  oi_id :: int
  oi_offer :: OfferSchema

record OrderCreateSchema =
  oc_customer :: CustomerResponseWithIdOnlySchema
  oc_items :: "OrderItemSchema list"
  oc_number :: string
  oc_order_type :: OrderTypeEnum
  oc_order_method :: OrderMethodEnum

record OrderResponseSchema =
  or_id :: int
  or_number :: string
  or_customer :: CustomerGetSchema
  or_items :: "OrderItemGetSchema list"
  or_total_amount :: real
  or_created_at :: string

datatype PaymentTypeEnum = cash | bank_card | e_money | bank_transfer | credit

datatype PaymentStatusEnum =
    not_paid | invoice | wait_approved | payment_start | canceled | fail | paid | returned

record PaymentCreateSchema =
  pc_order_id :: int
  pc_amount :: real
  pc_type :: PaymentTypeEnum
  pc_status :: PaymentStatusEnum
  pc_paid_at :: "string option"
  pc_comment :: "string option"

record PaymentResponseSchema =
  pr_id :: int

subsection \<open>What the libraries do\<close>

text \<open>
  The behaviour of httpx, pydantic, \<open>json\<close> and the interpreter that the adapter relies
  on, as parameters of the model:
  \<^item> \<open>client_request\<close>: the answer of the HTTP client (and the backend behind it) to a
    request, which may depend on the requests issued before it;
  \<^item> \<open>format_value\<close>: the text of a float, a list or a dictionary in an f-string;
  \<^item> \<open>lax_int\<close>: pydantic's conversion to \<open>int\<close> of a value that is not an integer
    (\<open>None\<close> when it rejects the value);
  \<^item> \<open>dumps_customer\<close>, \<open>dumps_order\<close>:
    \<open>json.dumps(dto.model_dump(exclude_none=True, by_alias=True))\<close>, the JSON text or
    the exception it raises;
  \<^item> \<open>model_dump_payment\<close>: \<open>model_dump(exclude_none=True, exclude={"order_id"})\<close>, and
    \<open>json_dumps\<close>: \<open>json.dumps\<close> of a dictionary;
  \<^item> \<open>validate_order\<close>: \<open>OrderResponseSchema(**d)\<close>, the validated record or the
    exception.
\<close>

record library =
  client_request :: "request list \<Rightarrow> request \<Rightarrow> outcome"
  format_value :: "pyval \<Rightarrow> string"
  lax_int :: "pyval \<Rightarrow> int option"
  dumps_customer :: "CustomerAddSchema \<Rightarrow> error + string"
  dumps_order :: "OrderCreateSchema \<Rightarrow> error + string"
  model_dump_payment :: "PaymentCreateSchema \<Rightarrow> pydict"
  json_dumps :: "pydict \<Rightarrow> error + string"
  validate_order :: "pydict \<Rightarrow> error + OrderResponseSchema"

text \<open>
  A schema whose only field is \<open>id: int\<close>, built with \<open>Schema(**v)\<close>: \<open>**\<close> needs a
  mapping, the field is required, other keys are ignored, and the value must be an integer
  or convert to one.
\<close>

definition validate_id :: "library \<Rightarrow> pyval \<Rightarrow> error + int" where
  "validate_id lib v =
     (case v of
        PDict d \<Rightarrow>
          (case map_of d ''id'' of
             None \<Rightarrow> Inl ValidationError
           | Some (PInt i) \<Rightarrow> Inr i
           | Some x \<Rightarrow> (case lax_int lib x of None \<Rightarrow> Inl ValidationError | Some i \<Rightarrow> Inr i))
      | _ \<Rightarrow> Inl TypeError)"

definition CustomerResponseWithIdOnlySchema_init ::
  "library \<Rightarrow> pyval \<Rightarrow> error + CustomerResponseWithIdOnlySchema" where
  "CustomerResponseWithIdOnlySchema_init lib v =
     (case validate_id lib v of Inl e \<Rightarrow> Inl e | Inr i \<Rightarrow> Inr \<lparr>cr_id = i\<rparr>)"

definition PaymentResponseSchema_init ::
  "library \<Rightarrow> pyval \<Rightarrow> error + PaymentResponseSchema" where
  "PaymentResponseSchema_init lib v =
     (case validate_id lib v of Inl e \<Rightarrow> Inl e | Inr i \<Rightarrow> Inr \<lparr>pr_id = i\<rparr>)"

definition OrderResponseSchema_init ::
  "library \<Rightarrow> pyval \<Rightarrow> error + OrderResponseSchema" where
  "OrderResponseSchema_init lib v =
     (case v of PDict d \<Rightarrow> validate_order lib d | _ \<Rightarrow> Inl TypeError)"

subsection \<open>Preparing the request\<close>

text \<open>
  \<open>RetailCRMService._prepare_request_params\<close>, on a store of dictionary objects, since
  the caller's dictionary and the one returned are objects that could be shared: an object
  is its index in the store (a reference to an object is an index below the length of
  the store), \<open>params.copy()\<close> and \<open>{}\<close> allocate a new object, and
  \<open>request_params["apiKey"] = ...\<close> updates the object it names in place.
\<close>

type_synonym ref = nat
type_synonym store = "pydict list"

definition dict_copy :: "store \<Rightarrow> ref \<Rightarrow> ref \<times> store" where
  "dict_copy h r = (length h, h @ [h ! r])"

definition dict_new :: "store \<Rightarrow> ref \<times> store" where
  "dict_new h = (length h, h @ [[]])"

definition dict_setitem :: "store \<Rightarrow> ref \<Rightarrow> string \<Rightarrow> pyval \<Rightarrow> store" where
  "dict_setitem h r k v = h[r := AList.update k v (h ! r)]"

definition prepare_request_params :: "service \<Rightarrow> ref option \<Rightarrow> store \<Rightarrow> ref \<times> store" where
  "prepare_request_params svc params h =
     (let (request_params, h1) =
            (case params of
               None \<Rightarrow> dict_new h
             | Some r \<Rightarrow> if h ! r \<noteq> [] then dict_copy h r else dict_new h)
      in (request_params, dict_setitem h1 request_params ''apiKey'' (PStr (api_key svc))))"

text \<open>
  The same call seen from \<open>_make_request\<close>, which only reads the dictionary returned: the
  caller's dictionary (if any) is the one object of the store.
\<close>

definition request_params_of :: "service \<Rightarrow> pydict option \<Rightarrow> pydict" where
  "request_params_of svc params =
     (case params of
        None \<Rightarrow> (let (r, h) = prepare_request_params svc None [] in h ! r)
      | Some d \<Rightarrow> (let (r, h) = prepare_request_params svc (Some 0) [d] in h ! r))"

text \<open>
  \<open>_prepare_request_body\<close> and \<open>_prepare_request_headers\<close>, on values: the second returns
  the dictionary it was given (or a new one) with the content type set for \<open>POST\<close>.
\<close>

definition prepare_request_body :: "pydict option \<Rightarrow> pydict option" where
  "prepare_request_body json_data = json_data"

definition prepare_request_headers :: "pydict option \<Rightarrow> HTTPMethod \<Rightarrow> pydict" where
  "prepare_request_headers headers method =
     (let hdrs = (case headers of None \<Rightarrow> [] | Some h \<Rightarrow> h)
      in if method = POST
         then AList.update ''Content-Type'' (PStr ''application/x-www-form-urlencoded'') hdrs
         else hdrs)"

subsection \<open>Validating the response and making the request\<close>

text \<open>\<open>RetailCRMService._validate_response\<close>, on a response that is a dictionary.\<close>

definition validate_response ::
  "(pyval \<Rightarrow> string) \<Rightarrow> pydict \<Rightarrow> string \<Rightarrow> world \<Rightarrow> (error + unit) \<times> world" where
  "validate_response fmt response endpoint w =
     (if \<not> truthy (dict_get_default response ''success'' (PBool False))
      then
        (let error_msg = dict_get_default response ''errorMsg'' (PStr ''Unknown error'')
         in (Inl (Exception (''RetailCRM API error: '' @ py_str fmt error_msg)),
             log ERROR (''RetailCRM API returned error: '' @ py_str fmt error_msg) w))
      else (Inr (), w))"

text \<open>
  \<open>BaseCRMService._make_request\<close>. \<open>raise_for_status()\<close> raises \<open>HTTPStatusError\<close> for
  every status outside 200..299. The two handlers are \<open>http_status_error\<close> and
  \<open>request_error\<close>; a decoded body that is not a dictionary makes \<open>response.get\<close> in
  \<open>_validate_response\<close> raise \<open>AttributeError\<close>, which the second handler catches like any
  other exception. \<open>_prepare_request_headers\<close> is called without a method, so with its
  default \<open>POST\<close>.
\<close>

definition is_success :: "response \<Rightarrow> bool" where
  "is_success resp = (200 \<le> resp_status_code resp \<and> resp_status_code resp \<le> 299)"

definition http_status_error :: "response \<Rightarrow> world \<Rightarrow> (error + pydict) \<times> world" where
  "http_status_error resp w =
     (let error_detail = ''HTTP '' @ str_int (resp_status_code resp) @ '': '' @ resp_text resp
      in (Inl (Exception (''CRM API error: '' @ error_detail)),
          log ERROR (''HTTP error in CRM API request: '' @ error_detail) w))"

definition request_error :: "string \<Rightarrow> world \<Rightarrow> (error + pydict) \<times> world" where
  "request_error msg w =
     (Inl (Exception (''Request error: '' @ msg)), log ERROR (''Request error: '' @ msg) w)"

definition build_request ::
  "service \<Rightarrow> HTTPMethod \<Rightarrow> string \<Rightarrow> pydict option \<Rightarrow> pydict option \<Rightarrow> pydict option \<Rightarrow> request" where
  "build_request svc method endpoint params json_data headers =
     \<lparr>req_method = method,
      req_url = api_url svc @ endpoint,
      req_params = request_params_of svc params,
      req_data = prepare_request_body json_data,
      req_headers = prepare_request_headers headers POST\<rparr>"

definition make_request ::
  "library \<Rightarrow> service \<Rightarrow> HTTPMethod \<Rightarrow> string \<Rightarrow> pydict option \<Rightarrow> pydict option \<Rightarrow>
   pydict option \<Rightarrow> world \<Rightarrow> (error + pydict) \<times> world" where
  "make_request lib svc method endpoint params json_data headers w =
     (let req = build_request svc method endpoint params json_data headers;
          w1 = log DEBUG (''Making '' @ method_value method @ '' request to CRM API'') w;
          w2 = w1\<lparr>calls := calls w1 @ [req]\<rparr>
      in case client_request lib (calls w1) req of
           Raises msg \<Rightarrow> request_error msg w2
         | Responds resp \<Rightarrow>
             if \<not> is_success resp then http_status_error resp w2
             else
               (case resp_json resp of
                  Inl msg \<Rightarrow> request_error msg w2
                | Inr (PDict result) \<Rightarrow>
                    (case validate_response (format_value lib) result endpoint w2 of
                       (Inl e, w3) \<Rightarrow> request_error (error_text e) w3
                     | (Inr u, w3) \<Rightarrow>
                         (Inr result,
                          log DEBUG (''Successfully completed '' @ method_value method @
                                     '' request to '' @ endpoint) w3))
                | Inr v \<Rightarrow> request_error (error_text (no_get v)) w2))"

section \<open>The operations\<close>

text \<open>
  \<open>create_customer\<close>, \<open>create_order\<close> and \<open>create_payment\<close> of \<open>RetailCRMService\<close>. The
  body of a write is serialised while the arguments of \<open>_make_request\<close> are evaluated,
  so an exception of the serialisation leaves the operation before any call is issued;
  an exception of \<open>_make_request\<close> or of a schema leaves it unchanged, since no operation
  has a handler. \<open>if response.id\<close> tests the integer for being non-zero.
\<close>

definition create_customer ::
  "library \<Rightarrow> service \<Rightarrow> CustomerAddSchema \<Rightarrow> world \<Rightarrow>
   (error + CustomerResponseWithIdOnlySchema) \<times> world" where
  "create_customer lib svc customer_dto w =
     (let w1 = log INFO ''Creating new customer'' w
      in case dumps_customer lib customer_dto of
           Inl e \<Rightarrow> (Inl e, w1)
         | Inr body \<Rightarrow>
             (case make_request lib svc POST CUSTOMERS_CREATE None
                     (Some [(''customer'', PStr body)]) None w1 of
                (Inl e, w2) \<Rightarrow> (Inl e, w2)
              | (Inr result, w2) \<Rightarrow>
                  (let customer_data_response = py_or (dict_get result ''customer'') (PDict result)
                   in case CustomerResponseWithIdOnlySchema_init lib customer_data_response of
                        Inl e \<Rightarrow> (Inl e, w2)
                      | Inr customer_response \<Rightarrow>
                          (Inr customer_response,
                           if cr_id customer_response \<noteq> 0
                           then log INFO (''Customer created successfully with ID: '' @
                                          str_int (cr_id customer_response)) w2
                           else log WARNING (''Customer creation response doesn'' @ [CHR 0x27] @
                                             ''t contain ID'') w2))))"

definition create_order ::
  "library \<Rightarrow> service \<Rightarrow> OrderCreateSchema \<Rightarrow> world \<Rightarrow> (error + OrderResponseSchema) \<times> world" where
  "create_order lib svc order_dto w =
     (let order_number = oc_number order_dto;
          w1 = log INFO ''Creating new order'' w
      in case dumps_order lib order_dto of
           Inl e \<Rightarrow> (Inl e, w1)
         | Inr body \<Rightarrow>
             (case make_request lib svc POST ORDER_CREATE None
                     (Some [(''order'', PStr body)]) None w1 of
                (Inl e, w2) \<Rightarrow> (Inl e, w2)
              | (Inr result, w2) \<Rightarrow>
                  (let order_data_response = py_or (dict_get result ''order'') (PDict result)
                   in case OrderResponseSchema_init lib order_data_response of
                        Inl e \<Rightarrow> (Inl e, w2)
                      | Inr order_response \<Rightarrow>
                          (Inr order_response,
                           if or_id order_response \<noteq> 0
                           then log INFO (''Order created successfully with ID: '' @
                                          str_int (or_id order_response) @ '', number: '' @
                                          order_number) w2
                           else log WARNING (''Order creation response doesn'' @ [CHR 0x27] @
                                             ''t contain ID'') w2))))"

definition order_not_found :: "int \<Rightarrow> string" where
  "order_not_found order_id = ''Order with id '' @ str_int order_id @ '' not found''"

definition create_payment ::
  "library \<Rightarrow> service \<Rightarrow> PaymentCreateSchema \<Rightarrow> world \<Rightarrow>
   (error + PaymentResponseSchema) \<times> world" where
  "create_payment lib svc payment_dto w =
     (let order_id = pc_order_id payment_dto;
          w1 = log INFO (''Creating payment for order ID: '' @ str_int order_id) w;
          w2 = log DEBUG (''Checking if order '' @ str_int order_id @ '' exists'') w1
      in case make_request lib svc GET (ORDER_GET_build order_id)
                (Some [(''by'', PStr ''id'')]) None None w2 of
           (Inl e, w3) \<Rightarrow> (Inl e, w3)
         | (Inr order_response, w3) \<Rightarrow>
             if \<not> truthy (dict_get order_response ''success'') \<or>
                \<not> truthy (dict_get order_response ''order'')
             then (Inl (Exception (order_not_found order_id)),
                   log ERROR (order_not_found order_id) w3)
             else
               (let w4 = log DEBUG (''Order '' @ str_int order_id @
                                    '' found, proceeding with payment creation'') w3;
                    payment_data = AList.update ''order'' (PDict [(''id'', PInt order_id)])
                                     (model_dump_payment lib payment_dto)
                in case json_dumps lib payment_data of
                     Inl e \<Rightarrow> (Inl e, w4)
                   | Inr body \<Rightarrow>
                       (case make_request lib svc POST PAYMENTS_CREATE None
                               (Some [(''payment'', PStr body)]) None w4 of
                          (Inl e, w5) \<Rightarrow> (Inl e, w5)
                        | (Inr result, w5) \<Rightarrow>
                            (let payment_data_response =
                                   py_or (dict_get result ''payment'') (PDict result)
                             in case PaymentResponseSchema_init lib payment_data_response of
                                  Inl e \<Rightarrow> (Inl e, w5)
                                | Inr payment_response \<Rightarrow>
                                    (Inr payment_response,
                                     if pr_id payment_response \<noteq> 0
                                     then log INFO (''Payment created successfully with ID: '' @
                                                    str_int (pr_id payment_response) @
                                                    '' for order '' @ str_int order_id) w5
                                     else log WARNING (''Payment creation response doesn'' @
                                                       [CHR 0x27] @ ''t contain ID'') w5)))))"

section \<open>Claims about the request pipeline\<close>

lemma calls_log [simp]: "calls (log lvl msg w) = calls w"
  by (simp add: log_def)

lemma logs_log [simp]: "logs (log lvl msg w) = logs w @ [(lvl, msg)]"
  by (simp add: log_def)

lemma validate_response_calls:
  "validate_response fmt d endpoint w = (r, w') \<Longrightarrow> calls w' = calls w"
  by (auto simp: validate_response_def Let_def split: if_splits)

text \<open>
  The world once the request has been sent, and \<open>_make_request\<close> as a case distinction on
  the answer (the definition, with that world named).
\<close>

definition sent ::
  "service \<Rightarrow> HTTPMethod \<Rightarrow> string \<Rightarrow> pydict option \<Rightarrow> pydict option \<Rightarrow> pydict option \<Rightarrow>
   world \<Rightarrow> world" where
  "sent svc method endpoint params json_data headers w =
     (log DEBUG (''Making '' @ method_value method @ '' request to CRM API'') w)
       \<lparr>calls := calls w @ [build_request svc method endpoint params json_data headers]\<rparr>"

lemma calls_sent [simp]:
  "calls (sent svc method endpoint params json_data headers w) =
   calls w @ [build_request svc method endpoint params json_data headers]"
  by (simp add: sent_def)

lemma logs_sent [simp]:
  "logs (sent svc method endpoint params json_data headers w) =
   logs w @ [(DEBUG, ''Making '' @ method_value method @ '' request to CRM API'')]"
  by (simp add: sent_def)

lemma make_request_cases:
  "make_request lib svc method endpoint params json_data headers w =
     (case client_request lib (calls w) (build_request svc method endpoint params json_data headers) of
        Raises msg \<Rightarrow> request_error msg (sent svc method endpoint params json_data headers w)
      | Responds resp \<Rightarrow>
          if \<not> is_success resp
          then http_status_error resp (sent svc method endpoint params json_data headers w)
          else
            (case resp_json resp of
               Inl msg \<Rightarrow> request_error msg (sent svc method endpoint params json_data headers w)
             | Inr (PDict result) \<Rightarrow>
                 (case validate_response (format_value lib) result endpoint
                         (sent svc method endpoint params json_data headers w) of
                    (Inl e, w3) \<Rightarrow> request_error (error_text e) w3
                  | (Inr u, w3) \<Rightarrow>
                      (Inr result,
                       log DEBUG (''Successfully completed '' @ method_value method @
                                  '' request to '' @ endpoint) w3))
             | Inr v \<Rightarrow> request_error (error_text (no_get v))
                         (sent svc method endpoint params json_data headers w)))"
  unfolding make_request_def Let_def calls_log sent_def by (rule refl)

lemma request_error_simps [simp]:
  "fst (request_error msg w) = Inl (Exception (''Request error: '' @ msg))"
  "calls (snd (request_error msg w)) = calls w"
  "logs (snd (request_error msg w)) = logs w @ [(ERROR, ''Request error: '' @ msg)]"
  by (simp_all add: request_error_def)

lemma http_status_error_simps [simp]:
  "fst (http_status_error resp w) =
     Inl (Exception (''CRM API error: HTTP '' @ str_int (resp_status_code resp) @ '': '' @
                     resp_text resp))"
  "calls (snd (http_status_error resp w)) = calls w"
  by (simp_all add: http_status_error_def Let_def)

lemma make_request_calls:
  "calls (snd (make_request lib svc method endpoint params json_data headers w)) =
   calls w @ [build_request svc method endpoint params json_data headers]"
proof -
  let ?w2 = "sent svc method endpoint params json_data headers w"
  have v: "calls (snd (case validate_response (format_value lib) d endpoint ?w2 of
                 (Inl e, w3) \<Rightarrow> request_error (error_text e) w3
               | (Inr u, w3) \<Rightarrow> (Inr d, log DEBUG m w3))) =
           calls w @ [build_request svc method endpoint params json_data headers]" for d m
    by (cases "validate_response (format_value lib) d endpoint ?w2")
       (auto dest: validate_response_calls split: sum.splits)
  show ?thesis
    unfolding make_request_cases
    by (simp add: v split: outcome.splits sum.splits pyval.splits)
qed



lemma make_request_semantic_failure:
  assumes "client_request lib (calls w) (build_request svc method endpoint params json_data headers)
           = Responds resp"
    and "is_success resp"
    and "resp_json resp = Inr (PDict d)"
    and "\<not> truthy (dict_get_default d ''success'' (PBool False))"
  shows "fst (make_request lib svc method endpoint params json_data headers w) =
         Inl (Exception (''Request error: RetailCRM API error: '' @
                py_str (format_value lib) (dict_get_default d ''errorMsg'' (PStr ''Unknown error''))))"
  using assms by (simp add: make_request_cases validate_response_def Let_def)

lemma validate_response_class:
  "validate_response fmt d endpoint w = (Inl e, w') \<Longrightarrow> class_of e = ExceptionClass"
  by (auto simp: validate_response_def Let_def split: if_splits)

lemma make_request_failure_class:
  assumes "fst (make_request lib svc method endpoint params json_data headers w) = Inl e"
  shows "class_of e = ExceptionClass"
proof -
  let ?w2 = "sent svc method endpoint params json_data headers w"
  have v: "fst (case validate_response (format_value lib) d endpoint ?w2 of
                 (Inl e, w3) \<Rightarrow> request_error (error_text e) w3
               | (Inr u, w3) \<Rightarrow> (Inr d, log DEBUG m w3)) = Inl e
           \<Longrightarrow> class_of e = ExceptionClass" for d m
    by (cases "validate_response (format_value lib) d endpoint ?w2")
       (auto split: sum.splits)
  show ?thesis
    using assms unfolding make_request_cases
    by (auto dest: v split: outcome.splits sum.splits pyval.splits if_splits)
qed

lemma make_request_success:
  assumes "fst (make_request lib svc method endpoint params json_data headers w) = Inr result"
  shows "\<exists>resp. client_request lib (calls w)
                  (build_request svc method endpoint params json_data headers) = Responds resp
               \<and> is_success resp \<and> resp_json resp = Inr (PDict result)
               \<and> truthy (dict_get_default result ''success'' (PBool False))"
proof -
  let ?w2 = "sent svc method endpoint params json_data headers w"
  have v: "fst (case validate_response (format_value lib) d endpoint ?w2 of
                 (Inl e, w3) \<Rightarrow> request_error (error_text e) w3
               | (Inr u, w3) \<Rightarrow> (Inr d, log DEBUG m w3)) = Inr result
           \<Longrightarrow> d = result \<and> truthy (dict_get_default result ''success'' (PBool False))" for d m
    by (cases "validate_response (format_value lib) d endpoint ?w2")
       (auto simp: validate_response_def Let_def split: sum.splits if_splits)
  show ?thesis
    using assms unfolding make_request_cases
    by (auto dest: v split: outcome.splits sum.splits pyval.splits if_splits)
qed

lemma truthy_success_present:
  "truthy (dict_get_default d ''success'' (PBool False)) \<Longrightarrow>
   \<exists>v. map_of d ''success'' = Some v \<and> truthy v"
  by (auto simp: dict_get_default_def split: option.splits)

subsection \<open>A concrete service, world and library\<close>

text \<open>
  A service with the API key of the repository's tests, an empty world, and a library
  whose HTTP client is given and whose other members are fixed: every serialisation gives
  \<open>{}\<close>, no value that is not an integer converts to one, and no order record
  validates.
\<close>

definition example_service :: service where
  "example_service = \<lparr>api_url = ''http://crm/api/v5'', api_key = ''abc123''\<rparr>"

definition example_world :: world where
  "example_world = \<lparr>calls = [], logs = []\<rparr>"

definition example_library :: "(request list \<Rightarrow> request \<Rightarrow> outcome) \<Rightarrow> library" where
  "example_library client =
     \<lparr>client_request = client,
      format_value = (\<lambda>v. ''?''),
      lax_int = (\<lambda>v. None),
      dumps_customer = (\<lambda>c. Inr ''{}''),
      dumps_order = (\<lambda>c. Inr ''{}''),
      model_dump_payment = (\<lambda>p. []),
      json_dumps = (\<lambda>d. Inr ''{}''),
      validate_order = (\<lambda>d. Inl ValidationError)\<rparr>"

text \<open>A backend that gives the same answer to every request.\<close>

definition answers :: "int \<Rightarrow> string \<Rightarrow> string + pyval \<Rightarrow> request list \<Rightarrow> request \<Rightarrow> outcome" where
  "answers status body decoded = (\<lambda>history req.
     Responds \<lparr>resp_status_code = status, resp_text = body, resp_json = decoded\<rparr>)"

lemmas example_defs =
  example_service_def example_world_def example_library_def answers_def

lemmas eval_defs =
  build_request_def request_params_of_def prepare_request_params_def dict_new_def
  dict_copy_def dict_setitem_def prepare_request_body_def prepare_request_headers_def
  is_success_def str_int_def str_nat.simps digit_char_def validate_response_def
  dict_get_default_def dict_get_def py_or_def Let_def


text \<open>
  Claim C5, as stated: a 2xx answer with a false success
  indicator and a 500 answer both make the operation fail with an exception of the same
  class, the built-in \<open>Exception\<close>; only the message tells them apart.
\<close>

theorem semantic_error_same_class_counterexample:
  "fst (make_request
          (example_library (answers 200 ''{}''
             (Inr (PDict [(''success'', PBool False), (''errorMsg'', PStr ''bad'')]))))
          example_service GET ''/customers'' None None None example_world)
     = Inl (Exception ''Request error: RetailCRM API error: bad'')
   \<and> fst (make_request (example_library (answers 500 ''internal'' (Inl ''not JSON'')))
          example_service GET ''/customers'' None None None example_world)
     = Inl (Exception ''CRM API error: HTTP 500: internal'')
   \<and> class_of (Exception ''Request error: RetailCRM API error: bad'')
     = class_of (Exception ''CRM API error: HTTP 500: internal'')"
  by (simp add: make_request_cases example_defs eval_defs)

text \<open>
  Claim C5, amended. When the outbound call returns a 2xx status and a payload whose
  success indicator is false (or absent), the operation fails, after that one call, with
  an exception whose message is \<open>Request error: RetailCRM API error: <error text>\<close>, so
  it includes the backend-supplied error text. The exception is of the same class as
  every other failure of the request pipeline (the built-in \<open>Exception\<close>, which is also
  what a non-2xx status gives); it differs from the failure for a non-2xx status by its
  message, which never has the form \<open>CRM API error: HTTP ...\<close>.
\<close>

theorem semantic_failure_message:
  assumes "client_request lib (calls w) (build_request svc method endpoint params json_data headers)
           = Responds resp"
    and "is_success resp"
    and "resp_json resp = Inr (PDict d)"
    and "\<not> truthy (dict_get_default d ''success'' (PBool False))"
  shows "fst (make_request lib svc method endpoint params json_data headers w) =
           Inl (Exception (''Request error: RetailCRM API error: '' @
                  py_str (format_value lib) (dict_get_default d ''errorMsg'' (PStr ''Unknown error''))))
       \<and> (\<forall>s. map_of d ''errorMsg'' = Some (PStr s) \<longrightarrow>
             fst (make_request lib svc method endpoint params json_data headers w) =
               Inl (Exception (''Request error: RetailCRM API error: '' @ s)))
       \<and> (\<forall>lib' svc' method' endpoint' params' json_data' headers' w' e.
             fst (make_request lib' svc' method' endpoint' params' json_data' headers' w') = Inl e \<longrightarrow>
             class_of e = ExceptionClass)
       \<and> (\<forall>rest. ''Request error: RetailCRM API error: '' @
                  py_str (format_value lib) (dict_get_default d ''errorMsg'' (PStr ''Unknown error''))
                \<noteq> ''CRM API error: HTTP '' @ rest)
       \<and> calls (snd (make_request lib svc method endpoint params json_data headers w)) =
           calls w @ [build_request svc method endpoint params json_data headers]"
proof -
  have m: "fst (make_request lib svc method endpoint params json_data headers w) =
           Inl (Exception (''Request error: RetailCRM API error: '' @
                  py_str (format_value lib) (dict_get_default d ''errorMsg'' (PStr ''Unknown error''))))"
    using assms by (rule make_request_semantic_failure)
  have s: "fst (make_request lib svc method endpoint params json_data headers w) =
               Inl (Exception (''Request error: RetailCRM API error: '' @ s))"
    if "map_of d ''errorMsg'' = Some (PStr s)" for s
    using m that by (simp add: dict_get_default_def)
  show ?thesis
    using m s make_request_failure_class make_request_calls by auto
qed

theorem semantic_failure_message_witness:
  "client_request
     (example_library (answers 200 ''{}''
        (Inr (PDict [(''success'', PBool False), (''errorMsg'', PStr ''bad'')]))))
     (calls example_world) (build_request example_service GET ''/customers'' None None None)
     = Responds \<lparr>resp_status_code = 200, resp_text = ''{}'',
         resp_json = Inr (PDict [(''success'', PBool False), (''errorMsg'', PStr ''bad'')])\<rparr>
   \<and> is_success \<lparr>resp_status_code = 200, resp_text = ''{}'',
         resp_json = Inr (PDict [(''success'', PBool False), (''errorMsg'', PStr ''bad'')])\<rparr>
   \<and> \<not> truthy (dict_get_default [(''success'', PBool False), (''errorMsg'', PStr ''bad'')]
                  ''success'' (PBool False))
   \<and> map_of [(''success'', PBool False), (''errorMsg'', PStr ''bad'')] ''errorMsg''
       = Some (PStr ''bad'')
   \<and> fst (make_request
          (example_library (answers 200 ''{}''
             (Inr (PDict [(''success'', PBool False), (''errorMsg'', PStr ''bad'')]))))
          example_service GET ''/customers'' None None None example_world)
     = Inl (Exception ''Request error: RetailCRM API error: bad'')"
proof -
  let ?d = "[(''success'', PBool False), (''errorMsg'', PStr ''bad'')]"
  let ?resp = "\<lparr>resp_status_code = 200, resp_text = ''{}'', resp_json = Inr (PDict ?d)\<rparr>"
  let ?lib = "example_library (answers 200 ''{}'' (Inr (PDict ?d)))"
  have h1: "client_request ?lib (calls example_world)
              (build_request example_service GET ''/customers'' None None None) = Responds ?resp"
    by (simp add: example_defs)
  have h2: "is_success ?resp" by (simp add: is_success_def)
  have h3: "resp_json ?resp = Inr (PDict ?d)" by simp
  have h4: "\<not> truthy (dict_get_default ?d ''success'' (PBool False))"
    by (simp add: dict_get_default_def)
  have h5: "map_of ?d ''errorMsg'' = Some (PStr ''bad'')" by simp
  from semantic_failure_message [OF h1 h2 h3 h4] h5
  have "fst (make_request ?lib example_service GET ''/customers'' None None None example_world)
        = Inl (Exception (''Request error: RetailCRM API error: '' @ ''bad''))"
    by blast
  with h1 h2 h4 h5 show ?thesis by simp
qed

text \<open>
  Claim C10, as stated: a payload that validation lets through should have contained
  \<open>success = true\<close>. The test is truthiness, so the payload \<open>{"success": "false"}\<close>, whose
  indicator is a non-empty string, passes validation and is handed back to the operation.
\<close>

theorem validated_payload_not_true_counterexample:
  "fst (make_request
          (example_library (answers 200 ''{}'' (Inr (PDict [(''success'', PStr ''false'')]))))
          example_service GET ''/customers'' None None None example_world)
     = Inr [(''success'', PStr ''false'')]
   \<and> map_of [(''success'', PStr ''false'')] ''success'' \<noteq> Some (PBool True)"
  by (simp add: make_request_cases example_defs eval_defs)

text \<open>
  Claim C10, amended. A payload with no \<open>success\<close> key is classified as a backend
  failure: validation takes the missing indicator as false and raises an error whose
  message carries the backend message (\<open>errorMsg\<close>), or \<open>Unknown error\<close> when there is no
  \<open>errorMsg\<close>, and the request fails with that message. Consequently every payload that
  the request pipeline hands to an operation contains a \<open>success\<close> key whose value is
  truthy (not necessarily the boolean true).
\<close>

theorem missing_success_is_failure:
  "(map_of d ''success'' = None \<longrightarrow>
      fst (validate_response fmt d endpoint w) =
        Inl (Exception (''RetailCRM API error: '' @
               py_str fmt (dict_get_default d ''errorMsg'' (PStr ''Unknown error'')))))
 \<and> (map_of d ''success'' = None \<and> map_of d ''errorMsg'' = None \<longrightarrow>
      fst (validate_response fmt d endpoint w) =
        Inl (Exception ''RetailCRM API error: Unknown error''))
 \<and> (\<forall>s. map_of d ''success'' = None \<and> map_of d ''errorMsg'' = Some (PStr s) \<longrightarrow>
      fst (validate_response fmt d endpoint w) = Inl (Exception (''RetailCRM API error: '' @ s)))
 \<and> (\<forall>resp. map_of d ''success'' = None \<and>
        client_request lib (calls w)
          (build_request svc method endpoint params json_data headers) = Responds resp \<and>
        is_success resp \<and> resp_json resp = Inr (PDict d) \<longrightarrow>
      fst (make_request lib svc method endpoint params json_data headers w) =
        Inl (Exception (''Request error: RetailCRM API error: '' @
               py_str (format_value lib) (dict_get_default d ''errorMsg'' (PStr ''Unknown error'')))))
 \<and> (\<forall>result. fst (make_request lib svc method endpoint params json_data headers w) = Inr result \<longrightarrow>
      (\<exists>v. map_of result ''success'' = Some v \<and> truthy v))"
proof -
  have a: "fst (validate_response fmt d endpoint w) =
        Inl (Exception (''RetailCRM API error: '' @
               py_str fmt (dict_get_default d ''errorMsg'' (PStr ''Unknown error''))))"
    if "map_of d ''success'' = None"
    using that by (simp add: validate_response_def dict_get_default_def Let_def)
  have b: "fst (validate_response fmt d endpoint w) =
        Inl (Exception ''RetailCRM API error: Unknown error'')"
    if "map_of d ''success'' = None" "map_of d ''errorMsg'' = None"
    using that by (simp add: validate_response_def dict_get_default_def Let_def)
  have c: "fst (validate_response fmt d endpoint w) = Inl (Exception (''RetailCRM API error: '' @ s))"
    if "map_of d ''success'' = None" "map_of d ''errorMsg'' = Some (PStr s)" for s
    using that by (simp add: validate_response_def dict_get_default_def Let_def)
  have e: "fst (make_request lib svc method endpoint params json_data headers w) =
        Inl (Exception (''Request error: RetailCRM API error: '' @
               py_str (format_value lib) (dict_get_default d ''errorMsg'' (PStr ''Unknown error''))))"
    if "map_of d ''success'' = None"
      "client_request lib (calls w)
          (build_request svc method endpoint params json_data headers) = Responds resp"
      "is_success resp" "resp_json resp = Inr (PDict d)" for resp
  proof -
    have "\<not> truthy (dict_get_default d ''success'' (PBool False))"
      using that(1) by (simp add: dict_get_default_def)
    with that(2-4) show ?thesis by (rule make_request_semantic_failure)
  qed
  have f: "\<exists>v. map_of result ''success'' = Some v \<and> truthy v"
    if "fst (make_request lib svc method endpoint params json_data headers w) = Inr result"
    for result
    using make_request_success [OF that] truthy_success_present by blast
  show ?thesis using a b c e f by blast
qed

theorem missing_success_is_failure_witness:
  "map_of ([] :: pydict) ''success'' = None \<and> map_of ([] :: pydict) ''errorMsg'' = None
   \<and> fst (validate_response (\<lambda>v. ''?'') [] ''/customers'' example_world)
       = Inl (Exception ''RetailCRM API error: Unknown error'')
   \<and> map_of [(''errorMsg'', PStr ''bad'')] ''success'' = None
   \<and> map_of [(''errorMsg'', PStr ''bad'')] ''errorMsg'' = Some (PStr ''bad'')
   \<and> fst (validate_response (\<lambda>v. ''?'') [(''errorMsg'', PStr ''bad'')] ''/customers'' example_world)
       = Inl (Exception ''RetailCRM API error: bad'')
   \<and> fst (make_request
          (example_library (answers 200 ''{}'' (Inr (PDict [(''errorMsg'', PStr ''bad'')]))))
          example_service GET ''/customers'' None None None example_world)
       = Inl (Exception ''Request error: RetailCRM API error: bad'')
   \<and> fst (make_request
          (example_library (answers 200 ''{}'' (Inr (PDict [(''success'', PInt 1)]))))
          example_service GET ''/customers'' None None None example_world)
       = Inr [(''success'', PInt 1)]
   \<and> (\<exists>v. map_of [(''success'', PInt 1)] ''success'' = Some v \<and> truthy v)"
proof -
  let ?d = "[(''errorMsg'', PStr ''bad'')]"
  let ?lib = "example_library (answers 200 ''{}'' (Inr (PDict ?d)))"
  let ?resp = "\<lparr>resp_status_code = 200, resp_text = ''{}'', resp_json = Inr (PDict ?d)\<rparr>"
  let ?lib1 = "example_library (answers 200 ''{}'' (Inr (PDict [(''success'', PInt 1)])))"
  have h0: "map_of ([] :: pydict) ''success'' = None \<and> map_of ([] :: pydict) ''errorMsg'' = None"
    by simp
  have h1: "map_of ?d ''success'' = None" by simp
  have h2: "map_of ?d ''errorMsg'' = Some (PStr ''bad'')" by simp
  have h3: "client_request ?lib (calls example_world)
              (build_request example_service GET ''/customers'' None None None) = Responds ?resp"
    by (simp add: example_defs)
  have h4: "is_success ?resp" "resp_json ?resp = Inr (PDict ?d)" by (simp_all add: is_success_def)
  have h5: "fst (make_request ?lib1 example_service GET ''/customers'' None None None example_world)
            = Inr [(''success'', PInt 1)]"
    by (simp add: make_request_cases example_defs eval_defs)
  from missing_success_is_failure [of "[]" "\<lambda>v. ''?''" "''/customers''" example_world] h0
  have r0: "fst (validate_response (\<lambda>v. ''?'') [] ''/customers'' example_world)
       = Inl (Exception ''RetailCRM API error: Unknown error'')"
    by blast
  from missing_success_is_failure [of ?d "\<lambda>v. ''?''" "''/customers''" example_world
      ?lib example_service GET None None None] h1 h2 h3 h4
  have r1: "fst (validate_response (\<lambda>v. ''?'') ?d ''/customers'' example_world)
       = Inl (Exception (''RetailCRM API error: '' @ ''bad''))"
    and r2: "fst (make_request ?lib example_service GET ''/customers'' None None None example_world)
       = Inl (Exception (''Request error: RetailCRM API error: '' @
               py_str (format_value ?lib) (dict_get_default ?d ''errorMsg'' (PStr ''Unknown error''))))"
    by blast+
  from missing_success_is_failure [of "[]" "\<lambda>v. ''?''" "''/customers''" example_world
      ?lib1 example_service GET None None None] h5
  have r3: "\<exists>v. map_of [(''success'', PInt 1)] ''success'' = Some v \<and> truthy v"
    by blast
  from r0 r1 r2 r3 h0 h1 h2 h5 show ?thesis
    by (simp add: dict_get_default_def)
qed

section \<open>Claims about the request parameters\<close>

text \<open>
  Claim C9, as stated: every caller-supplied key should still map to its original value.
  A caller's own \<open>apiKey\<close> entry is overwritten with the service's key in the dictionary
  returned (object 1; the caller's dictionary, object 0, is untouched).
\<close>

theorem prepare_params_overwrites_api_key_counterexample:
  "prepare_request_params example_service (Some 0) [[(''apiKey'', PStr ''mine''), (''a'', PInt 1)]]
     = (1, [[(''apiKey'', PStr ''mine''), (''a'', PInt 1)],
            [(''apiKey'', PStr ''abc123''), (''a'', PInt 1)]])
   \<and> map_of [(''apiKey'', PStr ''mine''), (''a'', PInt 1)] ''apiKey'' = Some (PStr ''mine'')
   \<and> map_of [(''apiKey'', PStr ''abc123''), (''a'', PInt 1)] ''apiKey'' \<noteq> Some (PStr ''mine'')"
  by (simp add: example_defs eval_defs)

text \<open>
  Claim C9, amended. For every caller-supplied mapping (object \<open>r\<close> of the store), the
  prepare-params step returns a new object; no object that existed before the call is
  changed, the caller's mapping included; in the mapping returned every key other than
  \<open>apiKey\<close> maps to what it maps to in the caller's mapping (and is absent if absent
  there), and \<open>apiKey\<close> maps to the service's API key, whatever the caller supplied under
  that key. Without a caller-supplied mapping the result is a new mapping holding the API
  key alone.
\<close>

theorem prepare_params_frame:
  assumes "r < length h"
  shows "fst (prepare_request_params svc (Some r) h) = length h
       \<and> length (snd (prepare_request_params svc (Some r) h)) = Suc (length h)
       \<and> (\<forall>a. a < length h \<longrightarrow> snd (prepare_request_params svc (Some r) h) ! a = h ! a)
       \<and> (\<forall>k. k \<noteq> ''apiKey'' \<longrightarrow>
             map_of (snd (prepare_request_params svc (Some r) h) !
                       fst (prepare_request_params svc (Some r) h)) k = map_of (h ! r) k)
       \<and> map_of (snd (prepare_request_params svc (Some r) h) !
                    fst (prepare_request_params svc (Some r) h)) ''apiKey''
           = Some (PStr (api_key svc))
       \<and> fst (prepare_request_params svc None h) = length h
       \<and> (\<forall>a. a < length h \<longrightarrow> snd (prepare_request_params svc None h) ! a = h ! a)
       \<and> snd (prepare_request_params svc None h) ! length h = [(''apiKey'', PStr (api_key svc))]"
proof (cases "h ! r = []")
  case True
  then show ?thesis
    by (simp add: prepare_request_params_def dict_new_def dict_setitem_def nth_append)
next
  case False
  then show ?thesis
    by (simp add: prepare_request_params_def dict_new_def dict_copy_def dict_setitem_def
        nth_append update_conv')
qed

theorem prepare_params_frame_witness:
  "(0::nat) < length [[(''a'', PInt 1)]]
   \<and> fst (prepare_request_params example_service (Some 0) [[(''a'', PInt 1)]]) = 1
   \<and> snd (prepare_request_params example_service (Some 0) [[(''a'', PInt 1)]]) ! 0
       = [(''a'', PInt 1)]
   \<and> map_of (snd (prepare_request_params example_service (Some 0) [[(''a'', PInt 1)]]) ! 1) ''a''
       = Some (PInt 1)
   \<and> map_of (snd (prepare_request_params example_service (Some 0) [[(''a'', PInt 1)]]) ! 1) ''apiKey''
       = Some (PStr ''abc123'')"
proof -
  let ?h = "[[(''a'', PInt 1)]]"
  have h: "(0::nat) < length ?h" by simp
  have k: "''a'' \<noteq> ''apiKey''" by simp
  from prepare_params_frame [OF h, of example_service] h k
  have "fst (prepare_request_params example_service (Some 0) ?h) = length ?h"
    and "snd (prepare_request_params example_service (Some 0) ?h) ! 0 = ?h ! 0"
    and "map_of (snd (prepare_request_params example_service (Some 0) ?h) !
                   fst (prepare_request_params example_service (Some 0) ?h)) ''a''
         = map_of (?h ! 0) ''a''"
    and "map_of (snd (prepare_request_params example_service (Some 0) ?h) !
                   fst (prepare_request_params example_service (Some 0) ?h)) ''apiKey''
         = Some (PStr (api_key example_service))"
    by blast+
  then show ?thesis by (simp add: example_service_def)
qed

section \<open>Claims about the operations\<close>

lemma validate_response_fst:
  "fst (validate_response fmt d endpoint w) = fst (validate_response fmt d endpoint w')"
  by (simp add: validate_response_def Let_def)

lemma make_request_fst_calls:
  assumes "calls w = calls w'"
  shows "fst (make_request lib svc method endpoint params json_data headers w) =
         fst (make_request lib svc method endpoint params json_data headers w')"
proof -
  let ?s = "sent svc method endpoint params json_data headers"
  have v: "fst (case validate_response (format_value lib) d endpoint (?s w) of
                 (Inl e, w3) \<Rightarrow> request_error (error_text e) w3
               | (Inr u, w3) \<Rightarrow> (Inr d, log DEBUG m w3)) =
           fst (case validate_response (format_value lib) d endpoint (?s w') of
                 (Inl e, w3) \<Rightarrow> request_error (error_text e) w3
               | (Inr u, w3) \<Rightarrow> (Inr d, log DEBUG m w3))" for d m
    using validate_response_fst [of "format_value lib" d endpoint "?s w" "?s w'"]
    by (cases "validate_response (format_value lib) d endpoint (?s w)";
        cases "validate_response (format_value lib) d endpoint (?s w')")
       (auto split: sum.splits)
  show ?thesis
    unfolding make_request_cases assms
    by (simp add: v split: outcome.splits sum.splits pyval.splits)
qed

lemmas run_defs =
  make_request_cases sent_def log_def request_error_def http_status_error_def
  validate_id_def CustomerResponseWithIdOnlySchema_init_def PaymentResponseSchema_init_def
  OrderResponseSchema_init_def error_text.simps no_get_def

text \<open>
  Claim C8, as stated: an order with an empty item list should be rejected rather than
  forwarded. The code has no such check: the order goes to the order-create endpoint.
\<close>

theorem create_order_empty_items_counterexample:
  "oc_items \<lparr>oc_customer = \<lparr>cr_id = 1\<rparr>, oc_items = [], oc_number = ''A-1'',
             oc_order_type = OrderType_main, oc_order_method = phone\<rparr> = []
   \<and> calls (snd (create_order
        (example_library (answers 200 ''{}'' (Inr (PDict [(''success'', PBool True)]))))
        example_service
        \<lparr>oc_customer = \<lparr>cr_id = 1\<rparr>, oc_items = [], oc_number = ''A-1'',
         oc_order_type = OrderType_main, oc_order_method = phone\<rparr>
        example_world))
     = [\<lparr>req_method = POST, req_url = ''http://crm/api/v5/orders/create'',
         req_params = [(''apiKey'', PStr ''abc123'')],
         req_data = Some [(''order'', PStr ''{}'')],
         req_headers = [(''Content-Type'', PStr ''application/x-www-form-urlencoded'')]\<rparr>]"
  by (simp add: create_order_def ORDER_CREATE_def run_defs example_defs eval_defs)

text \<open>
  Claim C8, amended. \<open>create_order\<close> takes an order record, which by its type carries a
  customer reference by id, an item list and an order number, and forwards it to the
  backend's order-create endpoint whatever the item list holds, the empty list included:
  once the order is serialised, exactly one call is issued, a POST to
  \<open>/orders/create\<close> with the serialised order in the form field \<open>order\<close>. (If the
  serialisation raises, that error is the result and no call is issued.)
\<close>

theorem create_order_forwards:
  "(\<forall>body. dumps_order lib order_dto = Inr body \<longrightarrow>
      calls (snd (create_order lib svc order_dto w)) =
        calls w @ [build_request svc POST ORDER_CREATE None (Some [(''order'', PStr body)]) None]
    \<and> req_method (build_request svc POST ORDER_CREATE None (Some [(''order'', PStr body)]) None)
        = POST
    \<and> req_url (build_request svc POST ORDER_CREATE None (Some [(''order'', PStr body)]) None)
        = api_url svc @ ''/orders/create''
    \<and> req_data (build_request svc POST ORDER_CREATE None (Some [(''order'', PStr body)]) None)
        = Some [(''order'', PStr body)])
 \<and> (\<forall>e. dumps_order lib order_dto = Inl e \<longrightarrow>
      fst (create_order lib svc order_dto w) = Inl e
    \<and> calls (snd (create_order lib svc order_dto w)) = calls w)"
proof -
  have a: "calls (snd (create_order lib svc order_dto w)) =
        calls w @ [build_request svc POST ORDER_CREATE None (Some [(''order'', PStr body)]) None]"
    if "dumps_order lib order_dto = Inr body" for body
  proof -
    let ?w1 = "log INFO ''Creating new order'' w"
    let ?m = "make_request lib svc POST ORDER_CREATE None (Some [(''order'', PStr body)]) None ?w1"
    have "calls (snd ?m) =
        calls w @ [build_request svc POST ORDER_CREATE None (Some [(''order'', PStr body)]) None]"
      by (simp add: make_request_calls)
    then show ?thesis
      using that
      by (cases ?m) (auto simp: create_order_def Let_def split: sum.splits)
  qed
  have b: "fst (create_order lib svc order_dto w) = Inl e
         \<and> calls (snd (create_order lib svc order_dto w)) = calls w"
    if "dumps_order lib order_dto = Inl e" for e
    using that by (simp add: create_order_def Let_def)
  show ?thesis
    using a b
    by (simp add: build_request_def ORDER_CREATE_def prepare_request_body_def)
qed

theorem create_order_forwards_witness:
  "dumps_order (example_library (answers 500 ''internal'' (Inl ''not JSON'')))
      \<lparr>oc_customer = \<lparr>cr_id = 1\<rparr>, oc_items = [], oc_number = ''A-1'',
       oc_order_type = OrderType_main, oc_order_method = phone\<rparr> = Inr ''{}''
   \<and> calls (snd (create_order (example_library (answers 500 ''internal'' (Inl ''not JSON'')))
        example_service
        \<lparr>oc_customer = \<lparr>cr_id = 1\<rparr>, oc_items = [], oc_number = ''A-1'',
         oc_order_type = OrderType_main, oc_order_method = phone\<rparr>
        example_world))
     = [\<lparr>req_method = POST, req_url = ''http://crm/api/v5/orders/create'',
         req_params = [(''apiKey'', PStr ''abc123'')],
         req_data = Some [(''order'', PStr ''{}'')],
         req_headers = [(''Content-Type'', PStr ''application/x-www-form-urlencoded'')]\<rparr>]"
proof -
  let ?lib = "example_library (answers 500 ''internal'' (Inl ''not JSON''))"
  let ?dto = "\<lparr>oc_customer = \<lparr>cr_id = 1\<rparr>, oc_items = [], oc_number = ''A-1'',
               oc_order_type = OrderType_main, oc_order_method = phone\<rparr>"
  have h: "dumps_order ?lib ?dto = Inr ''{}''" by (simp add: example_defs)
  from create_order_forwards [of ?lib ?dto example_service example_world] h
  have "calls (snd (create_order ?lib example_service ?dto example_world)) =
        calls example_world @
        [build_request example_service POST ORDER_CREATE None (Some [(''order'', PStr ''{}'')]) None]"
    by blast
  with h show ?thesis by (simp add: ORDER_CREATE_def example_defs eval_defs)
qed

text \<open>
  Claim C4: a normalized record without the identity field should give a logged warning,
  no exception, and the absent identity handed to the caller. In the code the record is
  built with \<open>CustomerResponseWithIdOnlySchema(**...)\<close>, whose field \<open>id: int\<close> is
  required: the construction raises before the branch that logs the warning is reached.
  On the answer \<open>{"success": true}\<close> the result is pydantic's exception and no warning is
  logged; the warning branch is reached only by a record whose \<open>id\<close> is present and
  falsy, as on the answer \<open>{"success": true, "customer": {"id": 0}}\<close>.
\<close>

theorem create_customer_missing_id_raises:
  "fst (create_customer
          (example_library (answers 200 ''{}'' (Inr (PDict [(''success'', PBool True)]))))
          example_service
          \<lparr>ca_first_name = ''John'', ca_last_name = None, ca_email = None, ca_phones = None,
           ca_birthday = None\<rparr>
          example_world)
     = Inl ValidationError
   \<and> WARNING \<notin> fst ` set (logs (snd (create_customer
          (example_library (answers 200 ''{}'' (Inr (PDict [(''success'', PBool True)]))))
          example_service
          \<lparr>ca_first_name = ''John'', ca_last_name = None, ca_email = None, ca_phones = None,
           ca_birthday = None\<rparr>
          example_world)))
   \<and> fst (create_customer
          (example_library (answers 200 ''{}''
             (Inr (PDict [(''success'', PBool True), (''customer'', PDict [(''id'', PInt 0)])]))))
          example_service
          \<lparr>ca_first_name = ''John'', ca_last_name = None, ca_email = None, ca_phones = None,
           ca_birthday = None\<rparr>
          example_world)
     = Inr \<lparr>cr_id = 0\<rparr>
   \<and> WARNING \<in> fst ` set (logs (snd (create_customer
          (example_library (answers 200 ''{}''
             (Inr (PDict [(''success'', PBool True), (''customer'', PDict [(''id'', PInt 0)])]))))
          example_service
          \<lparr>ca_first_name = ''John'', ca_last_name = None, ca_email = None, ca_phones = None,
           ca_birthday = None\<rparr>
          example_world)))"
  by (simp add: create_customer_def CUSTOMERS_CREATE_def run_defs example_defs eval_defs)

text \<open>The same for every backend answer: a record without \<open>id\<close> never reaches the warning.\<close>

lemma create_customer_no_id:
  assumes "fst (create_customer lib svc customer_dto w) = Inr customer_response"
  shows "\<exists>body result d v.
           fst (make_request lib svc POST CUSTOMERS_CREATE None
                  (Some [(''customer'', PStr body)]) None (log INFO ''Creating new customer'' w))
             = Inr result
         \<and> py_or (dict_get result ''customer'') (PDict result) = PDict d
         \<and> map_of d ''id'' = Some v"
proof -
  let ?w1 = "log INFO ''Creating new customer'' w"
  from assms obtain body where body: "dumps_customer lib customer_dto = Inr body"
    by (cases "dumps_customer lib customer_dto") (auto simp: create_customer_def Let_def)
  let ?m = "make_request lib svc POST CUSTOMERS_CREATE None (Some [(''customer'', PStr body)]) None ?w1"
  from assms body obtain result w2 where m: "?m = (Inr result, w2)"
    by (cases ?m) (auto simp: create_customer_def Let_def split: sum.splits)
  let ?n = "py_or (dict_get result ''customer'') (PDict result)"
  from assms body m have "\<exists>i. validate_id lib ?n = Inr i"
    by (auto simp: create_customer_def Let_def CustomerResponseWithIdOnlySchema_init_def
        split: sum.splits)
  then obtain d v where "?n = PDict d" "map_of d ''id'' = Some v"
    by (auto simp: validate_id_def split: pyval.splits option.splits)
  with m show ?thesis by (intro exI [of _ body] exI [of _ result] exI [of _ d] exI [of _ v]) simp
qed

subsection \<open>Payment creation\<close>

text \<open>
  The existence read of \<open>create_payment\<close> for an order id, the payment write for a
  serialised payment, and the answers to the read that confirm the order: a 2xx status
  with a payload that is a dictionary with a truthy \<open>success\<close> and a truthy \<open>order\<close>.
\<close>

definition order_read :: "service \<Rightarrow> int \<Rightarrow> request" where
  "order_read svc order_id =
     build_request svc GET (ORDER_GET_build order_id) (Some [(''by'', PStr ''id'')]) None None"

definition payment_write :: "service \<Rightarrow> string \<Rightarrow> request" where
  "payment_write svc body =
     build_request svc POST PAYMENTS_CREATE None (Some [(''payment'', PStr body)]) None"

definition order_confirmed :: "outcome \<Rightarrow> bool" where
  "order_confirmed answer =
     (case answer of
        Raises msg \<Rightarrow> False
      | Responds resp \<Rightarrow>
          is_success resp \<and>
          (case resp_json resp of
             Inr (PDict d) \<Rightarrow>
               truthy (dict_get_default d ''success'' (PBool False)) \<and> truthy (dict_get d ''order'')
           | _ \<Rightarrow> False))"

lemma create_payment_cases:
  fixes lib svc payment_dto w
  defines "oid \<equiv> pc_order_id payment_dto"
  defines "m \<equiv> make_request lib svc GET (ORDER_GET_build oid) (Some [(''by'', PStr ''id'')])
                  None None
                  (log DEBUG (''Checking if order '' @ str_int oid @ '' exists'')
                     (log INFO (''Creating payment for order ID: '' @ str_int oid) w))"
  shows "calls (snd m) = calls w @ [order_read svc oid]"
    and "fst m = fst (make_request lib svc GET (ORDER_GET_build oid)
                        (Some [(''by'', PStr ''id'')]) None None w)"
    and "fst m = Inl e \<Longrightarrow> create_payment lib svc payment_dto w = (Inl e, snd m)"
    and "fst m = Inr d \<Longrightarrow> \<not> truthy (dict_get d ''order'') \<Longrightarrow>
         fst (create_payment lib svc payment_dto w) = Inl (Exception (order_not_found oid))
       \<and> calls (snd (create_payment lib svc payment_dto w)) = calls w @ [order_read svc oid]"
    and "calls (snd (create_payment lib svc payment_dto w)) = calls w @ [order_read svc oid]
       \<or> (\<exists>body. calls (snd (create_payment lib svc payment_dto w)) =
             calls w @ [order_read svc oid, payment_write svc body])"
proof -
  have cp: "create_payment lib svc payment_dto w =
     (case m of
        (Inl e, w3) \<Rightarrow> (Inl e, w3)
      | (Inr order_response, w3) \<Rightarrow>
          if \<not> truthy (dict_get order_response ''success'') \<or>
             \<not> truthy (dict_get order_response ''order'')
          then (Inl (Exception (order_not_found oid)), log ERROR (order_not_found oid) w3)
          else
            (case json_dumps lib (AList.update ''order'' (PDict [(''id'', PInt oid)])
                                    (model_dump_payment lib payment_dto)) of
               Inl e \<Rightarrow>
                 (Inl e, log DEBUG (''Order '' @ str_int oid @
                                    '' found, proceeding with payment creation'') w3)
             | Inr body \<Rightarrow>
                 (case make_request lib svc POST PAYMENTS_CREATE None
                         (Some [(''payment'', PStr body)]) None
                         (log DEBUG (''Order '' @ str_int oid @
                                     '' found, proceeding with payment creation'') w3) of
                    (Inl e, w5) \<Rightarrow> (Inl e, w5)
                  | (Inr result, w5) \<Rightarrow>
                      (case PaymentResponseSchema_init lib
                              (py_or (dict_get result ''payment'') (PDict result)) of
                         Inl e \<Rightarrow> (Inl e, w5)
                       | Inr payment_response \<Rightarrow>
                           (Inr payment_response,
                            if pr_id payment_response \<noteq> 0
                            then log INFO (''Payment created successfully with ID: '' @
                                           str_int (pr_id payment_response) @
                                           '' for order '' @ str_int oid) w5
                            else log WARNING (''Payment creation response doesn'' @
                                              [CHR 0x27] @ ''t contain ID'') w5)))))"
    unfolding create_payment_def Let_def m_def oid_def by (rule refl)
  show c: "calls (snd m) = calls w @ [order_read svc oid]"
    by (simp add: m_def make_request_calls order_read_def)
  show "fst m = fst (make_request lib svc GET (ORDER_GET_build oid)
                        (Some [(''by'', PStr ''id'')]) None None w)"
    unfolding m_def by (rule make_request_fst_calls) simp
  show l: "fst m = Inl e \<Longrightarrow> create_payment lib svc payment_dto w = (Inl e, snd m)" for e
    by (cases m) (simp add: cp)
  show r: "fst m = Inr d \<Longrightarrow> \<not> truthy (dict_get d ''order'') \<Longrightarrow>
         fst (create_payment lib svc payment_dto w) = Inl (Exception (order_not_found oid))
       \<and> calls (snd (create_payment lib svc payment_dto w)) = calls w @ [order_read svc oid]" for d
    using c by (cases m) (simp add: cp)
  show "calls (snd (create_payment lib svc payment_dto w)) = calls w @ [order_read svc oid]
       \<or> (\<exists>body. calls (snd (create_payment lib svc payment_dto w)) =
             calls w @ [order_read svc oid, payment_write svc body])"
  proof (cases m)
    case (Pair res w3)
    have c3: "calls w3 = calls w @ [order_read svc oid]" using c Pair by simp
    show ?thesis
    proof (cases res)
      case (Inl e)
      then show ?thesis using l [of e] c Pair by simp
    next
      case (Inr d)
      show ?thesis
      proof (cases "\<not> truthy (dict_get d ''success'') \<or> \<not> truthy (dict_get d ''order'')")
        case True
        then show ?thesis
          using Pair Inr c3 by (simp add: cp)
      next
        case False
        let ?w4 = "log DEBUG (''Order '' @ str_int oid @
                              '' found, proceeding with payment creation'') w3"
        let ?pd = "AList.update ''order'' (PDict [(''id'', PInt oid)])
                     (model_dump_payment lib payment_dto)"
        show ?thesis
        proof (cases "json_dumps lib ?pd")
          case (Inl e)
          then show ?thesis
            using Pair Inr False c3 by (simp add: cp)
        next
          case body: (Inr body)
          let ?p = "make_request lib svc POST PAYMENTS_CREATE None
                      (Some [(''payment'', PStr body)]) None ?w4"
          have cw: "calls (snd ?p) = calls w @ [order_read svc oid, payment_write svc body]"
            by (simp add: make_request_calls c3 payment_write_def)
          have tail: "calls (snd (case p of
                    (Inl e, w5) \<Rightarrow> (Inl e, w5)
                  | (Inr result, w5) \<Rightarrow>
                      (case V result of
                         Inl e \<Rightarrow> (Inl e, w5)
                       | Inr payment_response \<Rightarrow>
                           (Inr payment_response,
                            if C payment_response then log INFO (M payment_response) w5
                            else log WARNING N w5)))) = calls (snd p)"
            for p :: "(error + pydict) \<times> world"
              and V :: "pydict \<Rightarrow> error + PaymentResponseSchema" and C M N
            by (cases p) (auto split: sum.splits)
          have "create_payment lib svc payment_dto w =
                (case ?p of
                    (Inl e, w5) \<Rightarrow> (Inl e, w5)
                  | (Inr result, w5) \<Rightarrow>
                      (case PaymentResponseSchema_init lib
                              (py_or (dict_get result ''payment'') (PDict result)) of
                         Inl e \<Rightarrow> (Inl e, w5)
                       | Inr payment_response \<Rightarrow>
                           (Inr payment_response,
                            if pr_id payment_response \<noteq> 0
                            then log INFO (''Payment created successfully with ID: '' @
                                           str_int (pr_id payment_response) @
                                           '' for order '' @ str_int oid) w5
                            else log WARNING (''Payment creation response doesn'' @
                                              [CHR 0x27] @ ''t contain ID'') w5)))"
            unfolding cp using Pair Inr False body by simp
          then have "calls (snd (create_payment lib svc payment_dto w)) = calls (snd ?p)"
            by (simp only: tail)
          with cw show ?thesis by auto
        qed
      qed
    qed
  qed
qed

text \<open>
  Claim C1, as stated: whenever the existence read fails, the operation should fail as a
  NotFound-class error. When the read is answered with status 500, the operation fails
  with the read's own error, \<open>CRM API error: HTTP 500: internal\<close>, not with the error of
  the not-found branch, \<open>Order with id 7 not found\<close>.
\<close>

theorem create_payment_read_failure_counterexample:
  "fst (create_payment (example_library (answers 500 ''internal'' (Inl ''not JSON'')))
          example_service
          \<lparr>pc_order_id = 7, pc_amount = 10, pc_type = cash, pc_status = not_paid,
           pc_paid_at = None, pc_comment = None\<rparr>
          example_world)
     = Inl (Exception ''CRM API error: HTTP 500: internal'')
   \<and> order_not_found 7 = ''Order with id 7 not found''
   \<and> fst (create_payment (example_library (answers 500 ''internal'' (Inl ''not JSON'')))
          example_service
          \<lparr>pc_order_id = 7, pc_amount = 10, pc_type = cash, pc_status = not_paid,
           pc_paid_at = None, pc_comment = None\<rparr>
          example_world)
     \<noteq> Inl (Exception (order_not_found 7))"
  by (simp add: create_payment_def ORDER_GET_build_def order_not_found_def run_defs
      example_defs eval_defs)

text \<open>
  Claim C1, amended. For every payment-creation request, \<open>create_payment\<close> first issues
  an existence read (GET) for the referenced order, and the only call that may follow it
  is the payment-creation POST. Whenever the answer to the read does not confirm the
  order (the call raises, the status is not 2xx, the body is not a JSON object, the
  success indicator is false or absent, or there is no order record), the operation
  fails and the read is the only call issued: the POST is never issued. The failure is
  the read's own error when the read itself fails (transport or backend error), and the
  error \<open>Order with id <id> not found\<close> when the read succeeds and the payload holds no
  order record.
\<close>

theorem create_payment_read_before_write:
  "(calls (snd (create_payment lib svc payment_dto w)) =
      calls w @ [order_read svc (pc_order_id payment_dto)]
    \<or> (\<exists>body. calls (snd (create_payment lib svc payment_dto w)) =
          calls w @ [order_read svc (pc_order_id payment_dto), payment_write svc body]))
 \<and> req_method (order_read svc (pc_order_id payment_dto)) = GET
 \<and> req_url (order_read svc (pc_order_id payment_dto)) =
     api_url svc @ ''/orders/'' @ str_int (pc_order_id payment_dto)
 \<and> (\<forall>body. req_method (payment_write svc body) = POST
          \<and> req_url (payment_write svc body) = api_url svc @ ''/orders/payments/create'')
 \<and> (\<not> order_confirmed
        (client_request lib (calls w) (order_read svc (pc_order_id payment_dto))) \<longrightarrow>
      (\<exists>e. fst (create_payment lib svc payment_dto w) = Inl e)
    \<and> calls (snd (create_payment lib svc payment_dto w)) =
        calls w @ [order_read svc (pc_order_id payment_dto)]
    \<and> (\<forall>e. fst (make_request lib svc GET (ORDER_GET_build (pc_order_id payment_dto))
                  (Some [(''by'', PStr ''id'')]) None None w) = Inl e \<longrightarrow>
           fst (create_payment lib svc payment_dto w) = Inl e)
    \<and> (\<forall>d. fst (make_request lib svc GET (ORDER_GET_build (pc_order_id payment_dto))
                  (Some [(''by'', PStr ''id'')]) None None w) = Inr d \<longrightarrow>
           fst (create_payment lib svc payment_dto w) =
             Inl (Exception (order_not_found (pc_order_id payment_dto)))))"
proof -
  let ?oid = "pc_order_id payment_dto"
  let ?M = "make_request lib svc GET (ORDER_GET_build ?oid) (Some [(''by'', PStr ''id'')])
              None None w"
  let ?m = "make_request lib svc GET (ORDER_GET_build ?oid) (Some [(''by'', PStr ''id'')])
              None None
              (log DEBUG (''Checking if order '' @ str_int ?oid @ '' exists'')
                 (log INFO (''Creating payment for order ID: '' @ str_int ?oid) w))"
  note cs = create_payment_cases [of lib svc payment_dto w]
  have shape: "calls (snd (create_payment lib svc payment_dto w)) = calls w @ [order_read svc ?oid]
    \<or> (\<exists>body. calls (snd (create_payment lib svc payment_dto w)) =
          calls w @ [order_read svc ?oid, payment_write svc body])"
    by (rule cs(5))
  have reqs: "req_method (order_read svc ?oid) = GET"
    "req_url (order_read svc ?oid) = api_url svc @ ''/orders/'' @ str_int ?oid"
    "req_method (payment_write svc body) = POST"
    "req_url (payment_write svc body) = api_url svc @ ''/orders/payments/create''" for body
    by (simp_all add: order_read_def payment_write_def build_request_def ORDER_GET_build_def
        PAYMENTS_CREATE_def)
  have fm: "fst ?m = fst ?M" by (rule cs(2))
  have left: "fst (create_payment lib svc payment_dto w) = Inl e
            \<and> calls (snd (create_payment lib svc payment_dto w)) = calls w @ [order_read svc ?oid]"
    if "fst ?M = Inl e" for e
    using cs(3) [of e] cs(1) fm that by simp
  have right: "fst (create_payment lib svc payment_dto w) = Inl (Exception (order_not_found ?oid))
            \<and> calls (snd (create_payment lib svc payment_dto w)) = calls w @ [order_read svc ?oid]"
    if nc: "\<not> order_confirmed (client_request lib (calls w) (order_read svc ?oid))"
      and d: "fst ?M = Inr d" for d
  proof -
    from make_request_success [OF d] obtain resp where
      "client_request lib (calls w) (order_read svc ?oid) = Responds resp"
      "is_success resp" "resp_json resp = Inr (PDict d)"
      "truthy (dict_get_default d ''success'' (PBool False))"
      by (auto simp: order_read_def)
    with nc have "\<not> truthy (dict_get d ''order'')"
      by (simp add: order_confirmed_def)
    with cs(4) [of d] fm d show ?thesis by simp
  qed
  have fails: "(\<exists>e. fst (create_payment lib svc payment_dto w) = Inl e)
      \<and> calls (snd (create_payment lib svc payment_dto w)) = calls w @ [order_read svc ?oid]"
    if nc: "\<not> order_confirmed (client_request lib (calls w) (order_read svc ?oid))"
    using left right [OF nc] by (cases "fst ?M") auto
  show ?thesis
    using shape reqs fails left right by blast
qed

theorem create_payment_read_before_write_witness:
  "\<not> order_confirmed
       (client_request
          (example_library (answers 200 ''{}'' (Inr (PDict [(''success'', PBool True)]))))
          (calls example_world) (order_read example_service 7))
   \<and> fst (make_request
            (example_library (answers 200 ''{}'' (Inr (PDict [(''success'', PBool True)]))))
            example_service GET (ORDER_GET_build 7) (Some [(''by'', PStr ''id'')]) None None
            example_world)
       = Inr [(''success'', PBool True)]
   \<and> fst (create_payment
            (example_library (answers 200 ''{}'' (Inr (PDict [(''success'', PBool True)]))))
            example_service
            \<lparr>pc_order_id = 7, pc_amount = 10, pc_type = cash, pc_status = not_paid,
             pc_paid_at = None, pc_comment = None\<rparr>
            example_world)
       = Inl (Exception ''Order with id 7 not found'')
   \<and> calls (snd (create_payment
            (example_library (answers 200 ''{}'' (Inr (PDict [(''success'', PBool True)]))))
            example_service
            \<lparr>pc_order_id = 7, pc_amount = 10, pc_type = cash, pc_status = not_paid,
             pc_paid_at = None, pc_comment = None\<rparr>
            example_world))
       = [\<lparr>req_method = GET, req_url = ''http://crm/api/v5/orders/7'',
           req_params = [(''by'', PStr ''id''), (''apiKey'', PStr ''abc123'')],
           req_data = None,
           req_headers = [(''Content-Type'', PStr ''application/x-www-form-urlencoded'')]\<rparr>]"
proof -
  let ?lib = "example_library (answers 200 ''{}'' (Inr (PDict [(''success'', PBool True)])))"
  let ?dto = "\<lparr>pc_order_id = 7, pc_amount = 10, pc_type = cash, pc_status = not_paid,
               pc_paid_at = None, pc_comment = None\<rparr>"
  have h1: "\<not> order_confirmed (client_request ?lib (calls example_world)
                                  (order_read example_service (pc_order_id ?dto)))"
    by (simp add: order_confirmed_def example_defs eval_defs)
  have h2: "fst (make_request ?lib example_service GET (ORDER_GET_build (pc_order_id ?dto))
                  (Some [(''by'', PStr ''id'')]) None None example_world)
            = Inr [(''success'', PBool True)]"
    by (simp add: ORDER_GET_build_def run_defs example_defs eval_defs)
  from create_payment_read_before_write [of ?lib example_service ?dto example_world] h1 h2
  have "fst (create_payment ?lib example_service ?dto example_world) =
          Inl (Exception (order_not_found (pc_order_id ?dto)))"
    and "calls (snd (create_payment ?lib example_service ?dto example_world)) =
          calls example_world @ [order_read example_service (pc_order_id ?dto)]"
    by blast+
  with h1 h2 show ?thesis
    by (simp add: order_not_found_def order_read_def ORDER_GET_build_def example_defs eval_defs)
qed

end
